theory Spec2Isabelle
  imports Main
begin

unbundle bit_operations_syntax

section \<open>Constant-expression evaluation of solc-typed-ast (src/types/eval\_const.ts)\<close>

text \<open>
  The development embeds the functions of \<^verbatim>\<open>eval_const.ts\<close>: the classifier
  \<^verbatim>\<open>isConstant\<close>, the helpers \<^verbatim>\<open>promoteToDec\<close> and \<^verbatim>\<open>demoteFromDec\<close>, the operator
  evaluators \<^verbatim>\<open>evalLiteralImpl\<close>, \<^verbatim>\<open>evalUnaryImpl\<close>, \<^verbatim>\<open>evalBinaryImpl\<close>, and the
  mutually recursive \<^verbatim>\<open>evalLiteral\<close>, \<^verbatim>\<open>evalUnary\<close>, \<^verbatim>\<open>evalBinary\<close>,
  \<^verbatim>\<open>evalConstantExpr\<close>. A thrown exception is the \<open>Inl\<close> branch of a sum type.
\<close>

subsection \<open>The decimal.js values the evaluator computes with\<close>

text \<open>
  A \<^verbatim>\<open>Decimal\<close> is \<^verbatim>\<open>NaN\<close>, a signed infinity, or a finite number given by a sign, a
  coefficient and a power of ten: \<open>Finite neg c e\<close> stands for \<open>(-1)^neg * c * 10^e\<close>
  (the flag is \<open>True\<close> for a negative sign, so \<open>Finite True 0 0\<close> is \<^verbatim>\<open>-0\<close>).
  decimal.js keeps the coefficient without trailing zeros; here a number may have several
  representations, and every operation below depends on the denoted number only.
  The library's exponent range (\<open>\<plusminus>9e15\<close>) and the engine's limits on the size of a
  BigInt or a string are not modelled: numbers are unbounded.
\<close>

datatype decimal = NaN | Infinity bool | Finite bool nat int

text \<open>\<^verbatim>\<open>Decimal.set({ precision: 100 })\<close>; the rounding mode stays the default
  \<^verbatim>\<open>ROUND_HALF_UP\<close> (to nearest, ties away from zero).\<close>

definition precision :: nat where
  "precision = 100"

fun ndigits :: "nat \<Rightarrow> nat" where
  "ndigits n = (if n < 10 then 1 else Suc (ndigits (n div 10)))"

declare ndigits.simps [simp del]

text \<open>Rounding of a result to \<open>precision\<close> significant digits.\<close>

definition finalise :: "decimal \<Rightarrow> decimal" where
  "finalise d =
     (case d of
        Finite s c e \<Rightarrow>
          (if ndigits c \<le> precision then d
           else let k = ndigits c - precision
                in Finite s ((c + 5 * 10 ^ (k - 1)) div 10 ^ k) (e + int k))
      | _ \<Rightarrow> d)"

text \<open>The coefficient of \<open>c * 10^e\<close> rewritten at a smaller exponent \<open>e0\<close>, and the
  signed integer of a sign and a coefficient.\<close>

definition aligned :: "nat \<Rightarrow> int \<Rightarrow> int \<Rightarrow> nat" where
  "aligned c e e0 = c * 10 ^ nat (e - e0)"

definition signed :: "bool \<Rightarrow> nat \<Rightarrow> int" where
  "signed s c = (if s then - int c else int c)"

fun Decimal_negated :: "decimal \<Rightarrow> decimal" where
  "Decimal_negated NaN = NaN"
| "Decimal_negated (Infinity s) = Infinity (\<not> s)"
| "Decimal_negated (Finite s c e) = Finite (\<not> s) c e"

fun Decimal_plus :: "decimal \<Rightarrow> decimal \<Rightarrow> decimal" where
  "Decimal_plus NaN y = NaN"
| "Decimal_plus x NaN = NaN"
| "Decimal_plus (Infinity s) (Infinity t) = (if s = t then Infinity s else NaN)"
| "Decimal_plus (Infinity s) (Finite t c e) = Infinity s"
| "Decimal_plus (Finite s c e) (Infinity t) = Infinity t"
| "Decimal_plus (Finite s1 c1 e1) (Finite s2 c2 e2) =
     (let e = min e1 e2;
          r = signed s1 (aligned c1 e1 e) + signed s2 (aligned c2 e2 e)
      in finalise (Finite (if r = 0 then s1 \<and> s2 else r < 0) (nat \<bar>r\<bar>) e))"

definition Decimal_minus :: "decimal \<Rightarrow> decimal \<Rightarrow> decimal" where
  "Decimal_minus x y = Decimal_plus x (Decimal_negated y)"

fun Decimal_times :: "decimal \<Rightarrow> decimal \<Rightarrow> decimal" where
  "Decimal_times NaN y = NaN"
| "Decimal_times x NaN = NaN"
| "Decimal_times (Infinity s) (Infinity t) = Infinity (s \<noteq> t)"
| "Decimal_times (Infinity s) (Finite t c e) = (if c = 0 then NaN else Infinity (s \<noteq> t))"
| "Decimal_times (Finite s c e) (Infinity t) = (if c = 0 then NaN else Infinity (s \<noteq> t))"
| "Decimal_times (Finite s1 c1 e1) (Finite s2 c2 e2) =
     finalise (Finite (s1 \<noteq> s2) (c1 * c2) (e1 + e2))"

text \<open>
  Division: \<^verbatim>\<open>NaN\<close> for \<open>0/0\<close> and \<open>\<infinity>/\<infinity>\<close>, a signed infinity for a non-zero dividend
  and a zero divisor, otherwise the quotient rounded to \<open>precision\<close> digits. The quotient
  is computed with at least \<open>precision + 1\<close> digits and then rounded, which gives the
  half-up rounding of the exact quotient.
\<close>

fun Decimal_div :: "decimal \<Rightarrow> decimal \<Rightarrow> decimal" where
  "Decimal_div NaN y = NaN"
| "Decimal_div x NaN = NaN"
| "Decimal_div (Infinity s) (Infinity t) = NaN"
| "Decimal_div (Infinity s) (Finite t c e) = Infinity (s \<noteq> t)"
| "Decimal_div (Finite s c e) (Infinity t) = Finite (s \<noteq> t) 0 0"
| "Decimal_div (Finite s1 c1 e1) (Finite s2 c2 e2) =
     (if c2 = 0 then (if c1 = 0 then NaN else Infinity (s1 \<noteq> s2))
      else if c1 = 0 then Finite (s1 \<noteq> s2) 0 0
      else let k = precision + 1 + ndigits c2 - ndigits c1
           in finalise (Finite (s1 \<noteq> s2) ((c1 * 10 ^ k) div c2) (e1 - e2 - int k)))"

text \<open>
  Modulo (the default mode \<^verbatim>\<open>ROUND_DOWN\<close>: the remainder of the truncated division, with
  the sign of the dividend): \<^verbatim>\<open>NaN\<close> when the dividend is not finite or the divisor is
  \<^verbatim>\<open>NaN\<close> or zero; the dividend when the divisor is infinite or the dividend is zero.
\<close>

fun Decimal_modulo :: "decimal \<Rightarrow> decimal \<Rightarrow> decimal" where
  "Decimal_modulo NaN y = NaN"
| "Decimal_modulo (Infinity s) y = NaN"
| "Decimal_modulo (Finite s c e) NaN = NaN"
| "Decimal_modulo (Finite s c e) (Infinity t) = finalise (Finite s c e)"
| "Decimal_modulo (Finite s1 c1 e1) (Finite s2 c2 e2) =
     (if c2 = 0 then NaN
      else if c1 = 0 then finalise (Finite s1 c1 e1)
      else let e = min e1 e2;
               r = aligned c1 e1 e mod aligned c2 e2 e
           in finalise (Finite (r \<noteq> 0 \<and> s1) r e))"

text \<open>\<^verbatim>\<open>x.cmp(y)\<close>: \<open>None\<close> stands for the \<^verbatim>\<open>NaN\<close> the library returns when an operand
  is \<^verbatim>\<open>NaN\<close>.\<close>

fun Decimal_cmp :: "decimal \<Rightarrow> decimal \<Rightarrow> int option" where
  "Decimal_cmp NaN y = None"
| "Decimal_cmp x NaN = None"
| "Decimal_cmp (Infinity s) (Infinity t) = Some (if s = t then 0 else if s then - 1 else 1)"
| "Decimal_cmp (Infinity s) (Finite t c e) = Some (if s then - 1 else 1)"
| "Decimal_cmp (Finite s c e) (Infinity t) = Some (if t then 1 else - 1)"
| "Decimal_cmp (Finite s1 c1 e1) (Finite s2 c2 e2) =
     (let e = min e1 e2;
          a = signed s1 (aligned c1 e1 e);
          b = signed s2 (aligned c2 e2 e)
      in Some (if a < b then - 1 else if a = b then 0 else 1))"

definition Decimal_equals :: "decimal \<Rightarrow> decimal \<Rightarrow> bool" where
  "Decimal_equals x y = (Decimal_cmp x y = Some 0)"

definition Decimal_lessThan :: "decimal \<Rightarrow> decimal \<Rightarrow> bool" where
  "Decimal_lessThan x y = (Decimal_cmp x y = Some (- 1))"

definition Decimal_lessThanOrEqualTo :: "decimal \<Rightarrow> decimal \<Rightarrow> bool" where
  "Decimal_lessThanOrEqualTo x y = (case Decimal_cmp x y of None \<Rightarrow> False | Some k \<Rightarrow> k < 1)"

definition Decimal_greaterThan :: "decimal \<Rightarrow> decimal \<Rightarrow> bool" where
  "Decimal_greaterThan x y = (Decimal_cmp x y = Some 1)"

definition Decimal_greaterThanOrEqualTo :: "decimal \<Rightarrow> decimal \<Rightarrow> bool" where
  "Decimal_greaterThanOrEqualTo x y =
     (case Decimal_cmp x y of None \<Rightarrow> False | Some k \<Rightarrow> k = 1 \<or> k = 0)"

text \<open>\<^verbatim>\<open>d.isInt()\<close>: finite, with no fractional part.\<close>

fun Decimal_isInt :: "decimal \<Rightarrow> bool" where
  "Decimal_isInt (Finite s c e) = (c mod 10 ^ nat (- e) = 0)"
| "Decimal_isInt d = False"

text \<open>\<^verbatim>\<open>new Decimal(v.toString())\<close> for a bigint \<open>v\<close>: the constructor does not round.\<close>

definition Decimal_of_bigint :: "int \<Rightarrow> decimal" where
  "Decimal_of_bigint v = Finite (v < 0) (nat \<bar>v\<bar>) 0"

subsection \<open>Parsing a decimal from a string\<close>

definition isDigit :: "char \<Rightarrow> bool" where
  "isDigit c = (c \<in> set ''0123456789'')"

definition digitsValue :: "string \<Rightarrow> nat" where
  "digitsValue ds = foldl (\<lambda>a c. 10 * a + (of_char c - 48)) 0 ds"

definition isExpMark :: "char \<Rightarrow> bool" where
  "isExpMark c = (c = CHR ''e'' \<or> c = CHR ''E'')"

definition parseExponent :: "string \<Rightarrow> int option" where
  "parseExponent r =
     (case r of
        [] \<Rightarrow> None
      | c # ds \<Rightarrow>
          (let body = (if c = CHR ''-'' \<or> c = CHR ''+'' then ds else r)
           in if body \<noteq> [] \<and> list_all isDigit body
              then Some (if c = CHR ''-'' then - int (digitsValue body) else int (digitsValue body))
              else None))"

text \<open>
  The strings matching the library's pattern
  \<^verbatim>\<open>/^(\d+(\.\d*)?|\.\d+)(e[+-]?\d+)?$/i\<close>, read as coefficient and exponent.
\<close>

definition parseDecimal :: "string \<Rightarrow> (nat \<times> int) option" where
  "parseDecimal str =
     (let mant = takeWhile (\<lambda>c. \<not> isExpMark c) str;
          rest = dropWhile (\<lambda>c. \<not> isExpMark c) str;
          ip = takeWhile (\<lambda>c. c \<noteq> CHR ''.'') mant;
          fr = dropWhile (\<lambda>c. c \<noteq> CHR ''.'') mant;
          fp = tl fr;
          ex = (case rest of [] \<Rightarrow> Some 0 | _ # r \<Rightarrow> parseExponent r)
      in if list_all isDigit (ip @ fp) \<and> (if fr = [] then ip \<noteq> [] else ip @ fp \<noteq> [])
         then map_option (\<lambda>x. (digitsValue (ip @ fp), x - int (length fp))) ex
         else None)"

subsection \<open>Values, expressions and errors\<close>

text \<open>\<^verbatim>\<open>type Value = Decimal | boolean | string | bigint\<close>.\<close>

datatype Value = VDecimal decimal | VBoolean bool | VString string | VBigint int

text \<open>
  The AST nodes the evaluator reads (module \<^verbatim>\<open>../ast\<close>), with the fields it accesses.
  \<open>Literal kind value hexValue subdenomination\<close>; \<open>TupleExpression isInlineArray
  vOriginalComponents\<close> (a component may be \<^verbatim>\<open>null\<close>); \<open>Identifier
  vReferencedDeclaration\<close>; \<open>FunctionCall kind vArguments\<close>;
  \<open>VariableDeclaration constant vValue\<close>. \<open>OtherExpression\<close> and \<open>OtherDeclaration\<close>
  stand for the node classes the evaluator does not test for.
\<close>

datatype LiteralKind = Number | Bool | String | HexString | UnicodeString | OtherKind string

datatype FunctionCallKind = FunctionCall | TypeConversion | StructConstructorCall

datatype Expression =
    Literal LiteralKind string string "string option"
  | UnaryOperation string Expression
  | BinaryOperation string Expression Expression
  | TupleExpression bool "Expression option list"
  | Conditional Expression Expression Expression
  | Identifier "Declaration option"
  | FunctionCallExpr FunctionCallKind "Expression list"
  | OtherExpression string
and Declaration =
    VariableDeclaration bool "Expression option"
  | OtherDeclaration string

text \<open>
  What can be thrown. \<open>EvalError msg expr\<close> is the class \<^verbatim>\<open>EvalError\<close> with its optional
  \<^verbatim>\<open>expr\<close> field; \<open>NonConstantExpressionError expr\<close> is its subclass, whose constructor
  stores the expression it is given. \<open>Error\<close> is a plain JavaScript \<^verbatim>\<open>Error\<close>,
  \<open>DecimalError\<close> the plain \<^verbatim>\<open>Error\<close> decimal.js throws on an invalid argument,
  \<open>SyntaxError\<close> and \<open>TypeError\<close> the built-in errors of \<^verbatim>\<open>BigInt(...)\<close> and of mixed
  BigInt arithmetic. Messages keep the fixed text of the template only: the interpolated
  parts are rendered by the pretty-printer \<^verbatim>\<open>pp\<close>, which is outside this file.
\<close>

datatype error =
    EvalError string "Expression option"
  | NonConstantExpressionError "Expression option"
  | Error string
  | DecimalError string
  | SyntaxError string
  | TypeError string

text \<open>\<^verbatim>\<open>e instanceof EvalError\<close> and the field \<^verbatim>\<open>e.expr\<close>.\<close>

fun instanceofEvalError :: "error \<Rightarrow> bool" where
  "instanceofEvalError (EvalError m x) = True"
| "instanceofEvalError (NonConstantExpressionError x) = True"
| "instanceofEvalError e = False"

fun expr :: "error \<Rightarrow> Expression option" where
  "expr (EvalError m x) = x"
| "expr (NonConstantExpressionError x) = x"
| "expr e = None"

fun set_expr :: "Expression \<Rightarrow> error \<Rightarrow> error" where
  "set_expr node (EvalError m x) = EvalError m (Some node)"
| "set_expr node (NonConstantExpressionError x) = NonConstantExpressionError (Some node)"
| "set_expr node e = e"

text \<open>
  What the module imports and this file does not contain: the table
  \<^verbatim>\<open>SUBDENOMINATION_MULTIPLIERS\<close> of \<^verbatim>\<open>./utils\<close> (\<^verbatim>\<open>Map.get\<close> as a lookup), the
  library's \<^verbatim>\<open>pow\<close>, and the library's parser for the strings that are not decimal
  literals (hexadecimal, binary and octal literals, \<^verbatim>\<open>Infinity\<close>, \<^verbatim>\<open>NaN\<close>; \<open>None\<close>
  when it throws). They are parameters of the evaluator.
\<close>

record externals =
  SUBDENOMINATION_MULTIPLIERS :: "string \<Rightarrow> decimal option"
  Decimal_pow :: "decimal \<Rightarrow> decimal \<Rightarrow> decimal"
  Decimal_parseOther :: "string \<Rightarrow> decimal option"

text \<open>
  Modelled from the spec: the constant \<^verbatim>\<open>BINARY_OPERATOR_GROUPS\<close> of \<^verbatim>\<open>./utils\<close> is
  missing from this file; section 4.4 of the specification lists the five groups.
\<close>

record operator_groups =
  Arithmetic :: "string list"
  Bitwise :: "string list"
  Comparison :: "string list"
  Equality :: "string list"
  Logical :: "string list"

definition BINARY_OPERATOR_GROUPS :: operator_groups where
  "BINARY_OPERATOR_GROUPS =
     \<lparr> Arithmetic = [''+'', ''-'', ''*'', ''/'', ''%'', ''**''],
       Bitwise = [''<<'', ''>>'', ''|'', ''&'', ''^''],
       Comparison = [''<'', ''<='', ''>'', ''>=''],
       Equality = [''=='', ''!=''],
       Logical = [''&&'', ''||''] \<rparr>"

subsection \<open>Construction and conversion of decimals\<close>

text \<open>
  \<^verbatim>\<open>new Decimal(str)\<close>: an optional sign, then a decimal literal or one of the other
  forms; a plain \<^verbatim>\<open>Error\<close> of the library otherwise. The constructor does not round.
\<close>

definition Decimal_of_string :: "externals \<Rightarrow> string \<Rightarrow> error + decimal" where
  "Decimal_of_string X v =
     (let neg = (case v of [] \<Rightarrow> False | c # _ \<Rightarrow> c = CHR ''-'');
          body = (case v of [] \<Rightarrow> [] | c # r \<Rightarrow> if c = CHR ''-'' \<or> c = CHR ''+'' then r else v)
      in case parseDecimal body of
           Some (c, e) \<Rightarrow> Inr (Finite neg c e)
         | None \<Rightarrow>
             (case Decimal_parseOther X body of
                None \<Rightarrow> Inl (DecimalError ''[DecimalError] Invalid argument'')
              | Some d \<Rightarrow> Inr (if neg then Decimal_negated d else d)))"

text \<open>
  \<^verbatim>\<open>BigInt(d.toFixed())\<close>: \<^verbatim>\<open>toFixed\<close> prints the number in positional notation, which
  \<^verbatim>\<open>BigInt\<close> accepts exactly when it is a finite integer.
\<close>

fun BigInt_toFixed :: "decimal \<Rightarrow> error + int" where
  "BigInt_toFixed (Finite s c e) =
     (if c mod 10 ^ nat (- e) = 0
      then Inr (signed s (if 0 \<le> e then c * 10 ^ nat e else c div 10 ^ nat (- e)))
      else Inl (SyntaxError ''Cannot convert to a BigInt''))"
| "BigInt_toFixed d = Inl (SyntaxError ''Cannot convert to a BigInt'')"

subsection \<open>promoteToDec, demoteFromDec\<close>

fun promoteToDec :: "Value \<Rightarrow> error + decimal" where
  "promoteToDec (VBigint v) = Inr (Decimal_of_bigint v)"
| "promoteToDec (VDecimal v) = Inr v"
| "promoteToDec v = Inl (Error ''Expected number not'')"

definition demoteFromDec :: "decimal \<Rightarrow> error + Value" where
  "demoteFromDec d =
     (if Decimal_isInt d
      then (case BigInt_toFixed d of Inl err \<Rightarrow> Inl err | Inr n \<Rightarrow> Inr (VBigint n))
      else Inr (VDecimal d))"

subsection \<open>isConstant\<close>

fun isConstant :: "Expression \<Rightarrow> bool" where
  "isConstant (Literal kind v hv sub) = True"
| "isConstant (UnaryOperation operator vSubExpression) = isConstant vSubExpression"
| "isConstant (BinaryOperation operator vLeftExpression vRightExpression) =
     (isConstant vLeftExpression \<and> isConstant vRightExpression)"
| "isConstant (TupleExpression isInlineArray [Some c]) = (\<not> isInlineArray \<and> isConstant c)"
| "isConstant (Conditional vCondition vTrueExpression vFalseExpression) =
     (isConstant vCondition \<and> isConstant vTrueExpression \<and> isConstant vFalseExpression)"
| "isConstant (Identifier (Some (VariableDeclaration constant (Some vValue)))) =
     (constant \<and> isConstant vValue)"
| "isConstant (FunctionCallExpr kind (a # as)) = (kind = TypeConversion \<and> isConstant a)"
| "isConstant e = False"

subsection \<open>evalLiteralImpl\<close>

text \<open>
  \<^verbatim>\<open>if (subdenomination)\<close> tests the optional unit for truthiness: absent, or the empty
  string, is no unit. \<open>val\<close> is a bigint or a \<^verbatim>\<open>Decimal\<close>; the product of anything else
  with a BigInt would be a \<^verbatim>\<open>TypeError\<close>.
\<close>

definition hasSubdenomination :: "string option \<Rightarrow> bool" where
  "hasSubdenomination sub = (case sub of None \<Rightarrow> False | Some u \<Rightarrow> u \<noteq> [])"

definition evalLiteralImpl ::
  "externals \<Rightarrow> LiteralKind \<Rightarrow> string \<Rightarrow> string option \<Rightarrow> error + Value" where
  "evalLiteralImpl X kind v subdenomination =
     (if kind = Bool then Inr (VBoolean (v = ''true''))
      else if kind = String \<or> kind = UnicodeString \<or> kind = HexString then Inr (VString v)
      else if kind = Number then
        (case Decimal_of_string X (filter (\<lambda>c. c \<noteq> CHR ''_'') v) of
           Inl err \<Rightarrow> Inl err
         | Inr dec \<Rightarrow>
             (case (if Decimal_isInt dec
                    then (case BigInt_toFixed dec of Inl err \<Rightarrow> Inl err | Inr n \<Rightarrow> Inr (VBigint n))
                    else Inr (VDecimal dec)) of
                Inl err \<Rightarrow> Inl err
              | Inr val \<Rightarrow>
                  (if hasSubdenomination subdenomination
                   then (case SUBDENOMINATION_MULTIPLIERS X (the subdenomination) of
                           None \<Rightarrow> Inl (EvalError ''Unknown denomination'' None)
                         | Some multiplier \<Rightarrow>
                             (case val of
                                VDecimal d \<Rightarrow> demoteFromDec (Decimal_times d multiplier)
                              | VBigint n \<Rightarrow>
                                  (case BigInt_toFixed multiplier of
                                     Inl err \<Rightarrow> Inl err
                                   | Inr k \<Rightarrow> Inr (VBigint (n * k)))
                              | _ \<Rightarrow> Inl (TypeError ''Cannot mix BigInt and other types'')))
                   else Inr val)))
      else Inl (EvalError ''Unsupported literal kind'' None))"

subsection \<open>evalUnaryImpl\<close>

definition evalUnaryImpl :: "string \<Rightarrow> Value \<Rightarrow> error + Value" where
  "evalUnaryImpl operator v =
     (if operator = ''!'' then
        (case v of
           VBoolean b \<Rightarrow> Inr (VBoolean (\<not> b))
         | _ \<Rightarrow> Inl (EvalError ''Expected to be boolean'' None))
      else if operator = ''~'' then
        (case v of
           VBigint n \<Rightarrow> Inr (VBigint (NOT n))
         | _ \<Rightarrow> Inl (EvalError ''Expected to be a bigint'' None))
      else if operator = ''+'' then
        (case v of
           VDecimal d \<Rightarrow> Inr v
         | VBigint n \<Rightarrow> Inr v
         | _ \<Rightarrow> Inl (EvalError ''Expected to be a bigint or a decimal'' None))
      else if operator = ''-'' then
        (case v of
           VDecimal d \<Rightarrow> Inr (VDecimal (Decimal_negated d))
         | VBigint n \<Rightarrow> Inr (VBigint (- n))
         | _ \<Rightarrow> Inl (EvalError ''Expected to be a bigint or a decimal'' None))
      else Inl (EvalError ''Unable to process'' None))"

subsection \<open>evalBinaryImpl\<close>

text \<open>\<^verbatim>\<open>typeof v === "string"\<close>.\<close>

fun isString :: "Value \<Rightarrow> bool" where
  "isString (VString s) = True"
| "isString v = False"

text \<open>
  \<open>isEqual\<close> of the equality group, reached with no string operand:
  \<^verbatim>\<open>left.equals(right)\<close> for two decimals, \<^verbatim>\<open>left === right\<close> otherwise, which is false
  for operands of different types.
\<close>

fun isEqual :: "Value \<Rightarrow> Value \<Rightarrow> bool" where
  "isEqual (VDecimal a) (VDecimal b) = Decimal_equals a b"
| "isEqual (VBigint a) (VBigint b) = (a = b)"
| "isEqual (VBoolean a) (VBoolean b) = (a = b)"
| "isEqual (VString a) (VString b) = (a = b)"
| "isEqual l r = False"

text \<open>
  The shifts of BigInt: a negative amount shifts the other way, and a right shift
  rounds towards minus infinity.
\<close>

definition BigInt_leftShift :: "int \<Rightarrow> int \<Rightarrow> int" where
  "BigInt_leftShift x y = (if y < 0 then drop_bit (nat (- y)) x else push_bit (nat y) x)"

definition BigInt_signedRightShift :: "int \<Rightarrow> int \<Rightarrow> int" where
  "BigInt_signedRightShift x y = BigInt_leftShift x (- y)"

text \<open>The chain of tests that assigns \<^verbatim>\<open>res\<close> in the arithmetic group, or throws.\<close>

definition arithmeticRes :: "externals \<Rightarrow> string \<Rightarrow> decimal \<Rightarrow> decimal \<Rightarrow> error + decimal" where
  "arithmeticRes X operator leftDec rightDec =
     (if operator = ''+'' then Inr (Decimal_plus leftDec rightDec)
      else if operator = ''-'' then Inr (Decimal_minus leftDec rightDec)
      else if operator = ''*'' then Inr (Decimal_times leftDec rightDec)
      else if operator = ''/'' then Inr (Decimal_div leftDec rightDec)
      else if operator = ''%'' then Inr (Decimal_modulo leftDec rightDec)
      else if operator = ''**'' then Inr (Decimal_pow X leftDec rightDec)
      else Inl (EvalError ''Unknown arithmetic operator'' None))"

definition evalBinaryImpl :: "externals \<Rightarrow> string \<Rightarrow> Value \<Rightarrow> Value \<Rightarrow> error + Value" where
  "evalBinaryImpl X operator left right =
     (if operator \<in> set (Logical BINARY_OPERATOR_GROUPS) then
        (case (left, right) of
           (VBoolean l, VBoolean r) \<Rightarrow>
             (if operator = ''&&'' then Inr (VBoolean (l \<and> r))
              else if operator = ''||'' then Inr (VBoolean (l \<or> r))
              else Inl (EvalError ''Unknown logical operator'' None))
         | _ \<Rightarrow> Inl (EvalError ''expects booleans not'' None))
      else if operator \<in> set (Equality BINARY_OPERATOR_GROUPS) then
        (if isString left \<or> isString right
         then Inl (EvalError ''not allowed for strings'' None)
         else if operator = ''=='' then Inr (VBoolean (isEqual left right))
         else if operator = ''!='' then Inr (VBoolean (\<not> isEqual left right))
         else Inl (EvalError ''Unknown equality operator'' None))
      else if operator \<in> set (Comparison BINARY_OPERATOR_GROUPS) then
        (case promoteToDec left of
           Inl err \<Rightarrow> Inl err
         | Inr leftDec \<Rightarrow>
             (case promoteToDec right of
                Inl err \<Rightarrow> Inl err
              | Inr rightDec \<Rightarrow>
                  (if operator = ''<'' then Inr (VBoolean (Decimal_lessThan leftDec rightDec))
                   else if operator = ''<=''
                     then Inr (VBoolean (Decimal_lessThanOrEqualTo leftDec rightDec))
                   else if operator = ''>'' then Inr (VBoolean (Decimal_greaterThan leftDec rightDec))
                   else if operator = ''>=''
                     then Inr (VBoolean (Decimal_greaterThanOrEqualTo leftDec rightDec))
                   else Inl (EvalError ''Unknown comparison operator'' None))))
      else if operator \<in> set (Arithmetic BINARY_OPERATOR_GROUPS) then
        (case promoteToDec left of
           Inl err \<Rightarrow> Inl err
         | Inr leftDec \<Rightarrow>
             (case promoteToDec right of
                Inl err \<Rightarrow> Inl err
              | Inr rightDec \<Rightarrow>
                  (case arithmeticRes X operator leftDec rightDec of
                     Inl err \<Rightarrow> Inl err
                   | Inr res \<Rightarrow> demoteFromDec res)))
      else if operator \<in> set (Bitwise BINARY_OPERATOR_GROUPS) then
        (case (left, right) of
           (VBigint l, VBigint r) \<Rightarrow>
             (if operator = ''<<'' then Inr (VBigint (BigInt_leftShift l r))
              else if operator = ''>>'' then Inr (VBigint (BigInt_signedRightShift l r))
              else if operator = ''|'' then Inr (VBigint (l OR r))
              else if operator = ''&'' then Inr (VBigint (l AND r))
              else if operator = ''^'' then Inr (VBigint (l XOR r))
              else Inl (EvalError ''Unknown bitwise operator'' None))
         | _ \<Rightarrow> Inl (EvalError ''expects integers not'' None))
      else Inl (EvalError ''Unable to process'' None))"

subsection \<open>evalLiteral, evalUnary, evalBinary, evalConstantExpr\<close>

text \<open>
  The two shapes of \<^verbatim>\<open>try { return ... } catch (e) { ...; throw e }\<close>: \<^verbatim>\<open>evalLiteral\<close>
  sets \<^verbatim>\<open>e.expr\<close> of every \<^verbatim>\<open>EvalError\<close>; \<^verbatim>\<open>evalUnary\<close> and \<^verbatim>\<open>evalBinary\<close> set it
  when it is still \<^verbatim>\<open>undefined\<close>. Any other error is thrown on unchanged.
\<close>

definition catch_set :: "Expression \<Rightarrow> error + Value \<Rightarrow> error + Value" where
  "catch_set node res =
     (case res of
        Inl e \<Rightarrow> Inl (if instanceofEvalError e then set_expr node e else e)
      | Inr v \<Rightarrow> Inr v)"

definition catch_set_if_undefined :: "Expression \<Rightarrow> error + Value \<Rightarrow> error + Value" where
  "catch_set_if_undefined node res =
     (case res of
        Inl e \<Rightarrow> Inl (if instanceofEvalError e \<and> expr e = None then set_expr node e else e)
      | Inr v \<Rightarrow> Inr v)"

text \<open>The truthiness of a value, as the conditional operator \<^verbatim>\<open>? :\<close> tests it: a
  \<^verbatim>\<open>Decimal\<close> is an object and always truthy.\<close>

fun truthy :: "Value \<Rightarrow> bool" where
  "truthy (VBoolean b) = b"
| "truthy (VBigint n) = (n \<noteq> 0)"
| "truthy (VString s) = (s \<noteq> [])"
| "truthy (VDecimal d) = True"

text \<open>\<open>evalLiteral X kind value hexValue subdenomination\<close>: the node is given by its fields.\<close>

definition evalLiteral ::
  "externals \<Rightarrow> LiteralKind \<Rightarrow> string \<Rightarrow> string \<Rightarrow> string option \<Rightarrow> error + Value" where
  "evalLiteral X kind v hexValue subdenomination =
     catch_set (Literal kind v hexValue subdenomination)
       (evalLiteralImpl X kind (if kind = HexString then hexValue else v) subdenomination)"

text \<open>
  \<^verbatim>\<open>evalUnary\<close> and \<^verbatim>\<open>evalBinary\<close> take the node by its fields (operator and operands),
  evaluate the operands from left to right and apply the operator inside the \<^verbatim>\<open>try\<close>.
  In \<^verbatim>\<open>evalConstantExpr\<close> the branches that the test of \<^verbatim>\<open>isConstant\<close> excludes (a
  tuple without a first component, a declaration without a value, a call without an
  argument) pass \<^verbatim>\<open>undefined\<close> to the recursive call, which the classifier rejects.
\<close>

function evalUnary :: "externals \<Rightarrow> string \<Rightarrow> Expression \<Rightarrow> error + Value"
and evalBinary :: "externals \<Rightarrow> string \<Rightarrow> Expression \<Rightarrow> Expression \<Rightarrow> error + Value"
and evalConstantExpr :: "externals \<Rightarrow> Expression \<Rightarrow> error + Value" where
  "evalUnary X operator vSubExpression =
     catch_set_if_undefined (UnaryOperation operator vSubExpression)
       (case evalConstantExpr X vSubExpression of
          Inl e \<Rightarrow> Inl e
        | Inr v \<Rightarrow> evalUnaryImpl operator v)"
| "evalBinary X operator vLeftExpression vRightExpression =
     catch_set_if_undefined (BinaryOperation operator vLeftExpression vRightExpression)
       (case evalConstantExpr X vLeftExpression of
          Inl e \<Rightarrow> Inl e
        | Inr l \<Rightarrow>
            (case evalConstantExpr X vRightExpression of
               Inl e \<Rightarrow> Inl e
             | Inr r \<Rightarrow> evalBinaryImpl X operator l r))"
| "evalConstantExpr X node =
     (if \<not> isConstant node then Inl (NonConstantExpressionError (Some node))
      else
        (case node of
           Literal kind v hexValue subdenomination \<Rightarrow> evalLiteral X kind v hexValue subdenomination
         | UnaryOperation operator vSubExpression \<Rightarrow> evalUnary X operator vSubExpression
         | BinaryOperation operator vLeftExpression vRightExpression \<Rightarrow>
             evalBinary X operator vLeftExpression vRightExpression
         | TupleExpression isInlineArray vOriginalComponents \<Rightarrow>
             (case vOriginalComponents of
                Some c # _ \<Rightarrow> evalConstantExpr X c
              | _ \<Rightarrow> Inl (NonConstantExpressionError None))
         | Conditional vCondition vTrueExpression vFalseExpression \<Rightarrow>
             (case evalConstantExpr X vCondition of
                Inl e \<Rightarrow> Inl e
              | Inr c \<Rightarrow>
                  (if truthy c then evalConstantExpr X vTrueExpression
                   else evalConstantExpr X vFalseExpression))
         | Identifier vReferencedDeclaration \<Rightarrow>
             (case vReferencedDeclaration of
                Some (VariableDeclaration constant vValue) \<Rightarrow>
                  (case vValue of
                     Some e \<Rightarrow> evalConstantExpr X e
                   | None \<Rightarrow> Inl (NonConstantExpressionError None))
              | _ \<Rightarrow> Inl (EvalError ''Unable to evaluate constant expression'' (Some node)))
         | FunctionCallExpr kind vArguments \<Rightarrow>
             (case vArguments of
                a # _ \<Rightarrow> evalConstantExpr X a
              | [] \<Rightarrow> Inl (NonConstantExpressionError None))
         | OtherExpression s \<Rightarrow>
             Inl (EvalError ''Unable to evaluate constant expression'' (Some node))))"
  by pat_completeness auto

termination
  by (relation "measure (\<lambda>a. case a of
         Inl (X, operator, s) \<Rightarrow> 2 * size s + 2
       | Inr (Inl (X, operator, l, r)) \<Rightarrow> 2 * (size l + size r) + 2
       | Inr (Inr (X, node)) \<Rightarrow> 2 * size node + 1)") auto

declare evalUnary.simps [simp del] evalBinary.simps [simp del] evalConstantExpr.simps [simp del]

subsection \<open>Notions used to state the properties\<close>

text \<open>
  \<open>encloses node n\<close>: the expression \<open>n\<close> is \<open>node\<close> itself or lies inside it, where the
  inside of an identifier is the value of the variable it refers to.
\<close>

inductive encloses :: "Expression \<Rightarrow> Expression \<Rightarrow> bool" where
  encloses_self: "encloses n n"
| encloses_unary: "encloses s n \<Longrightarrow> encloses (UnaryOperation operator s) n"
| encloses_left: "encloses l n \<Longrightarrow> encloses (BinaryOperation operator l r) n"
| encloses_right: "encloses r n \<Longrightarrow> encloses (BinaryOperation operator l r) n"
| encloses_component:
    "Some c \<in> set cs \<Longrightarrow> encloses c n \<Longrightarrow> encloses (TupleExpression isInlineArray cs) n"
| encloses_condition: "encloses c n \<Longrightarrow> encloses (Conditional c t f) n"
| encloses_true: "encloses t n \<Longrightarrow> encloses (Conditional c t f) n"
| encloses_false: "encloses f n \<Longrightarrow> encloses (Conditional c t f) n"
| encloses_value:
    "encloses v n \<Longrightarrow> encloses (Identifier (Some (VariableDeclaration constant (Some v)))) n"
| encloses_argument: "a \<in> set as \<Longrightarrow> encloses a n \<Longrightarrow> encloses (FunctionCallExpr kind as) n"

text \<open>
  \<open>raised_at X n\<close>: the error thrown by the operation of the node \<open>n\<close> itself, that is by
  \<^verbatim>\<open>evalLiteralImpl\<close>, \<^verbatim>\<open>evalUnaryImpl\<close> or \<^verbatim>\<open>evalBinaryImpl\<close> applied to the values of
  its operands, when all its operands evaluate to a value.
\<close>

fun raised_at :: "externals \<Rightarrow> Expression \<Rightarrow> error option" where
  "raised_at X (Literal kind v hexValue subdenomination) =
     (case evalLiteralImpl X kind (if kind = HexString then hexValue else v) subdenomination of
        Inl e \<Rightarrow> Some e
      | Inr r \<Rightarrow> None)"
| "raised_at X (UnaryOperation operator s) =
     (case evalConstantExpr X s of
        Inl e \<Rightarrow> None
      | Inr v \<Rightarrow> (case evalUnaryImpl operator v of Inl e \<Rightarrow> Some e | Inr r \<Rightarrow> None))"
| "raised_at X (BinaryOperation operator l r) =
     (case evalConstantExpr X l of
        Inl e \<Rightarrow> None
      | Inr lv \<Rightarrow>
          (case evalConstantExpr X r of
             Inl e \<Rightarrow> None
           | Inr rv \<Rightarrow> (case evalBinaryImpl X operator lv rv of Inl e \<Rightarrow> Some e | Inr x \<Rightarrow> None)))"
| "raised_at X n = None"

text \<open>The composition \<^verbatim>\<open>demoteFromDec(promoteToDec(x))\<close> of the round-trip law.\<close>

definition demote_promote :: "Value \<Rightarrow> error + Value" where
  "demote_promote x = (case promoteToDec x of Inl e \<Rightarrow> Inl e | Inr d \<Rightarrow> demoteFromDec d)"

text \<open>
  Modelled from the spec: the table \<^verbatim>\<open>SUBDENOMINATION_MULTIPLIERS\<close> of \<^verbatim>\<open>./utils\<close> is
  missing from this file; the specification gives the entry \<open>minutes \<mapsto> 60\<close>. This
  instance of the parameters serves to evaluate concrete inputs: its table has that one
  entry, and no input evaluated below reaches \<^verbatim>\<open>pow\<close> or the parser of the other forms,
  which are set to \<^verbatim>\<open>NaN\<close> and to the throwing case.
\<close>

definition example_externals :: externals where
  "example_externals =
     \<lparr> SUBDENOMINATION_MULTIPLIERS = (\<lambda>u. if u = ''minutes'' then Some (Finite False 60 0) else None),
       Decimal_pow = (\<lambda>x y. NaN),
       Decimal_parseOther = (\<lambda>s. None) \<rparr>"

section \<open>Facts about the numeric model\<close>

text \<open>The number of digits, characterised by the powers of ten around the number.\<close>

lemma ndigits_eq: "0 < k \<Longrightarrow> 10 ^ (k - 1) \<le> n \<Longrightarrow> n < 10 ^ k \<Longrightarrow> ndigits n = k"
proof (induction k arbitrary: n)
  case 0
  then show ?case by simp
next
  case (Suc k)
  show ?case
  proof (cases "k = 0")
    case True
    with Suc.prems show ?thesis by (simp add: ndigits.simps)
  next
    case False
    then obtain j where k: "k = Suc j" by (cases k) auto
    from Suc.prems k have lo: "10 * 10 ^ j \<le> n" and hi: "n < 10 * 10 ^ k" by simp_all
    have "(1::nat) \<le> 10 ^ j" by simp
    with lo have ge: "\<not> n < 10" by (metis mult.right_neutral mult_le_mono2 le_trans not_less)
    from hi have "n div 10 < 10 ^ k"
      by (simp add: less_mult_imp_div_less mult.commute)
    moreover from lo have "10 ^ (k - 1) \<le> n div 10"
      using k by (simp add: less_eq_div_iff_mult_less_eq mult.commute)
    ultimately have "ndigits (n div 10) = k" using Suc.IH [of "n div 10"] k by simp
    with ge show ?thesis by (subst ndigits.simps) simp
  qed
qed

lemma ndigits_small: "n < 10 \<Longrightarrow> ndigits n = 1"
  by (simp add: ndigits.simps)

text \<open>\<^verbatim>\<open>demoteFromDec\<close> never fails: it returns the decimal itself when it has a fractional
  part or is not finite, and the integer of the same numeric value otherwise.\<close>

lemma demoteFromDec_not_int: "\<not> Decimal_isInt d \<Longrightarrow> demoteFromDec d = Inr (VDecimal d)"
  by (simp add: demoteFromDec_def)

lemma signed_nat_abs: "signed (signed s a < 0) (nat \<bar>signed s a\<bar> * p) = signed s (a * p)"
  by (auto simp: signed_def)

lemma demoteFromDec_int:
  assumes "Decimal_isInt d"
  shows "\<exists>n. demoteFromDec d = Inr (VBigint n) \<and> Decimal_equals (Decimal_of_bigint n) d"
proof (cases d)
  case (Finite s c e)
  with assms have m: "c mod 10 ^ nat (- e) = 0" by simp
  show ?thesis
  proof (cases "0 \<le> e")
    case True
    then show ?thesis
      using m Finite signed_nat_abs [of s "c * 10 ^ nat e" 1]
      by (simp add: demoteFromDec_def Decimal_equals_def Decimal_of_bigint_def aligned_def min_def)
  next
    case False
    from m have "c div 10 ^ nat (- e) * 10 ^ nat (- e) = c"
      by (metis div_mult_mod_eq add.right_neutral)
    then show ?thesis
      using m Finite False signed_nat_abs [of s "c div 10 ^ nat (- e)" "10 ^ nat (- e)"]
      by (simp add: demoteFromDec_def Decimal_equals_def Decimal_of_bigint_def aligned_def min_def)
  qed
qed (use assms in simp_all)

lemma demote_promote_bigint: "demote_promote (VBigint n) = Inr (VBigint n)"
  by (simp add: demote_promote_def demoteFromDec_def Decimal_of_bigint_def signed_def)

text \<open>The quotient of 1 and 3 with 100 significant digits.\<close>

lemma Decimal_div_1_3: "Decimal_div (Finite False 1 0) (Finite False 3 0) =
  Finite False 3333333333333333333333333333333333333333333333333333333333333333333333333333333333333333333333333333 (- 100)"
proof -
  have q: "(10 ^ 101 :: nat) div 3 = 33333333333333333333333333333333333333333333333333333333333333333333333333333333333333333333333333333"
    by simp
  have nq: "ndigits 33333333333333333333333333333333333333333333333333333333333333333333333333333333333333333333333333333 = 101"
    by (rule ndigits_eq) simp_all
  show ?thesis
    by (simp add: precision_def finalise_def ndigits_small Let_def q nq)
qed

section \<open>Facts about errors and the dispatch\<close>

text \<open>Errors that are not an \<^verbatim>\<open>EvalError\<close>: those of the library and of the built-ins.\<close>

lemma BigInt_toFixed_error: "BigInt_toFixed d = Inl e \<Longrightarrow> \<not> instanceofEvalError e"
  by (cases d) (auto split: if_splits)

lemma demoteFromDec_error: "demoteFromDec d = Inl e \<Longrightarrow> \<not> instanceofEvalError e"
  by (auto simp: demoteFromDec_def BigInt_toFixed_error split: if_splits sum.splits)

lemma promoteToDec_error: "promoteToDec v = Inl e \<Longrightarrow> \<not> instanceofEvalError e"
  by (cases v) auto

lemma Decimal_of_string_error: "Decimal_of_string X v = Inl e \<Longrightarrow> \<not> instanceofEvalError e"
  by (auto simp: Decimal_of_string_def Let_def split: option.splits prod.splits)

text \<open>An \<^verbatim>\<open>EvalError\<close> thrown by one of the three operations carries no expression.\<close>

lemma evalLiteralImpl_error:
  "evalLiteralImpl X kind v sub = Inl e \<Longrightarrow> instanceofEvalError e \<Longrightarrow> \<exists>m. e = EvalError m None"
  by (auto simp: evalLiteralImpl_def split: if_splits sum.splits option.splits Value.splits
      dest: Decimal_of_string_error BigInt_toFixed_error demoteFromDec_error)

lemma evalUnaryImpl_error:
  "evalUnaryImpl operator v = Inl e \<Longrightarrow> instanceofEvalError e \<Longrightarrow> \<exists>m. e = EvalError m None"
  by (auto simp: evalUnaryImpl_def split: if_splits Value.splits)

lemma evalBinaryImpl_error:
  "evalBinaryImpl X operator l r = Inl e \<Longrightarrow> instanceofEvalError e \<Longrightarrow> \<exists>m. e = EvalError m None"
  by (auto simp: evalBinaryImpl_def arithmeticRes_def
      split: if_splits sum.splits Value.splits
      dest: promoteToDec_error demoteFromDec_error)

lemma instanceofEvalError_set_expr [simp]:
  "instanceofEvalError (set_expr n e) = instanceofEvalError e"
  by (cases e) auto

text \<open>The dispatch of \<^verbatim>\<open>evalConstantExpr\<close> on a constant expression, shape by shape.\<close>

lemma evalConstantExpr_Literal:
  "evalConstantExpr X (Literal kind v hv sub) = evalLiteral X kind v hv sub"
  by (subst evalConstantExpr.simps) simp

lemma evalConstantExpr_Unary:
  "isConstant s \<Longrightarrow> evalConstantExpr X (UnaryOperation operator s) = evalUnary X operator s"
  by (subst evalConstantExpr.simps) simp

lemma evalConstantExpr_Binary:
  "isConstant l \<Longrightarrow> isConstant r \<Longrightarrow>
     evalConstantExpr X (BinaryOperation operator l r) = evalBinary X operator l r"
  by (subst evalConstantExpr.simps) simp

lemma evalConstantExpr_Tuple:
  "isConstant (TupleExpression ia [Some c]) \<Longrightarrow>
     evalConstantExpr X (TupleExpression ia [Some c]) = evalConstantExpr X c"
  by (subst evalConstantExpr.simps) simp

lemma evalConstantExpr_Conditional:
  "isConstant c \<Longrightarrow> isConstant t \<Longrightarrow> isConstant f \<Longrightarrow>
     evalConstantExpr X (Conditional c t f) =
       (case evalConstantExpr X c of
          Inl e \<Rightarrow> Inl e
        | Inr v \<Rightarrow> if truthy v then evalConstantExpr X t else evalConstantExpr X f)"
  by (subst evalConstantExpr.simps) simp

lemma evalConstantExpr_Identifier:
  "isConstant (Identifier (Some (VariableDeclaration constant (Some v)))) \<Longrightarrow>
     evalConstantExpr X (Identifier (Some (VariableDeclaration constant (Some v)))) =
       evalConstantExpr X v"
  by (subst evalConstantExpr.simps) simp

lemma evalConstantExpr_FunctionCall:
  "isConstant (FunctionCallExpr kind (a # as)) \<Longrightarrow>
     evalConstantExpr X (FunctionCallExpr kind (a # as)) = evalConstantExpr X a"
  by (subst evalConstantExpr.simps) simp

text \<open>
  An \<^verbatim>\<open>EvalError\<close> that leaves the evaluation of a constant expression refers to an
  enclosed node whose own operation threw it, without expression, on the values of its
  operands. The proof is by induction on the size of the expression.
\<close>

lemma constant_error_origin:
  "isConstant node \<Longrightarrow> evalConstantExpr X node = Inl err \<Longrightarrow> instanceofEvalError err \<Longrightarrow>
     \<exists>n m. err = EvalError m (Some n) \<and> encloses node n \<and>
           raised_at X n = Some (EvalError m None)"
proof (induction node arbitrary: err rule: measure_induct_rule [where f = size])
  case (less node)
  note const = less.prems(1) and ev = less.prems(2) and inst = less.prems(3)
  show ?case
  proof (rule isConstant.elims(2) [OF const], goal_cases)
    case (1 kind v hv sub)
    from ev 1 obtain e0 where
      e0: "evalLiteralImpl X kind (if kind = HexString then hv else v) sub = Inl e0"
      and err: "err = (if instanceofEvalError e0 then set_expr node e0 else e0)"
      by (auto simp: evalConstantExpr_Literal evalLiteral_def catch_set_def split: sum.splits)
    from err inst have "instanceofEvalError e0" by (auto split: if_splits)
    with e0 obtain m where "e0 = EvalError m None" by (auto dest: evalLiteralImpl_error)
    with e0 err 1 show ?case by (auto intro: encloses_self)
  next
    case (2 operator s)
    then have node: "node = UnaryOperation operator s" and cs: "isConstant s" by simp_all
    show ?case
    proof (cases "evalConstantExpr X s")
      case (Inl e)
      with ev node cs
      have err: "err = (if instanceofEvalError e \<and> expr e = None then set_expr node e else e)"
        by (auto simp: evalConstantExpr_Unary evalUnary.simps catch_set_if_undefined_def)
      with inst have "instanceofEvalError e" by (auto split: if_splits)
      with less.IH [of s e] node cs Inl obtain n m where
        "e = EvalError m (Some n)" "encloses s n" "raised_at X n = Some (EvalError m None)"
        by auto
      with err node show ?thesis by (auto intro: encloses_unary)
    next
      case (Inr v)
      with ev node cs obtain e0 where e0: "evalUnaryImpl operator v = Inl e0"
        and err: "err = (if instanceofEvalError e0 \<and> expr e0 = None then set_expr node e0 else e0)"
        by (auto simp: evalConstantExpr_Unary evalUnary.simps catch_set_if_undefined_def
            split: sum.splits)
      from err inst have "instanceofEvalError e0" by (auto split: if_splits)
      with e0 obtain m where "e0 = EvalError m None" by (auto dest: evalUnaryImpl_error)
      with e0 err node Inr show ?thesis by (auto intro: encloses_self)
    qed
  next
    case (3 operator l r)
    then have node: "node = BinaryOperation operator l r"
      and cl: "isConstant l" and cr: "isConstant r" by simp_all
    show ?case
    proof (cases "evalConstantExpr X l")
      case (Inl e)
      with ev node cl cr
      have err: "err = (if instanceofEvalError e \<and> expr e = None then set_expr node e else e)"
        by (auto simp: evalConstantExpr_Binary evalBinary.simps catch_set_if_undefined_def)
      with inst have "instanceofEvalError e" by (auto split: if_splits)
      with less.IH [of l e] node cl Inl obtain n m where
        "e = EvalError m (Some n)" "encloses l n" "raised_at X n = Some (EvalError m None)"
        by auto
      with err node show ?thesis by (auto intro: encloses_left)
    next
      case lv: (Inr lv)
      show ?thesis
      proof (cases "evalConstantExpr X r")
        case (Inl e)
        with ev node cl cr lv
        have err: "err = (if instanceofEvalError e \<and> expr e = None then set_expr node e else e)"
          by (auto simp: evalConstantExpr_Binary evalBinary.simps catch_set_if_undefined_def)
        with inst have "instanceofEvalError e" by (auto split: if_splits)
        with less.IH [of r e] node cr Inl obtain n m where
          "e = EvalError m (Some n)" "encloses r n" "raised_at X n = Some (EvalError m None)"
          by auto
        with err node show ?thesis by (auto intro: encloses_right)
      next
        case rv: (Inr rv)
        with ev node cl cr lv obtain e0 where e0: "evalBinaryImpl X operator lv rv = Inl e0"
          and err: "err = (if instanceofEvalError e0 \<and> expr e0 = None then set_expr node e0 else e0)"
          by (auto simp: evalConstantExpr_Binary evalBinary.simps catch_set_if_undefined_def
              split: sum.splits)
        from err inst have "instanceofEvalError e0" by (auto split: if_splits)
        with e0 obtain m where "e0 = EvalError m None" by (auto dest: evalBinaryImpl_error)
        with e0 err node lv rv show ?thesis by (auto intro: encloses_self)
      qed
    qed
  next
    case (4 ia c)
    then have node: "node = TupleExpression ia [Some c]" and cc: "isConstant c" by simp_all
    from ev node const have "evalConstantExpr X c = Inl err"
      by (simp add: evalConstantExpr_Tuple)
    with less.IH [of c err] node cc inst obtain n m where
      "err = EvalError m (Some n)" "encloses c n" "raised_at X n = Some (EvalError m None)"
      by auto
    with node show ?case by (auto intro: encloses_component)
  next
    case (5 c t f)
    then have node: "node = Conditional c t f"
      and cc: "isConstant c" and ct: "isConstant t" and cf: "isConstant f" by simp_all
    from ev node cc ct cf
    have "evalConstantExpr X c = Inl err \<or> evalConstantExpr X t = Inl err \<or>
          evalConstantExpr X f = Inl err"
      by (auto simp: evalConstantExpr_Conditional split: sum.splits if_splits)
    then show ?case
      using less.IH [of c err] less.IH [of t err] less.IH [of f err] node cc ct cf inst
      by (fastforce intro: encloses_condition encloses_true encloses_false)
  next
    case (6 const_flag v)
    then have node: "node = Identifier (Some (VariableDeclaration const_flag (Some v)))"
      and cv: "isConstant v" by simp_all
    from ev node const have "evalConstantExpr X v = Inl err"
      by (simp add: evalConstantExpr_Identifier)
    with less.IH [of v err] node cv inst obtain n m where
      "err = EvalError m (Some n)" "encloses v n" "raised_at X n = Some (EvalError m None)"
      by auto
    with node show ?case by (auto intro: encloses_value)
  next
    case (7 kind a as)
    then have node: "node = FunctionCallExpr kind (a # as)" and ca: "isConstant a" by simp_all
    from ev node const have "evalConstantExpr X a = Inl err"
      by (simp add: evalConstantExpr_FunctionCall)
    with less.IH [of a err] node ca inst obtain n m where
      "err = EvalError m (Some n)" "encloses a n" "raised_at X n = Some (EvalError m None)"
      by auto
    with node show ?case by (auto intro: encloses_argument)
  qed
qed

text \<open>\<^verbatim>\<open>evalLiteral\<close> sets the expression without testing it, but what it catches never
  has one: it acts as the handlers that test.\<close>

lemma evalLiteral_sets_unset_only:
  "evalLiteral X kind v hexValue sub =
     catch_set_if_undefined (Literal kind v hexValue sub)
       (evalLiteralImpl X kind (if kind = HexString then hexValue else v) sub)"
proof (cases "evalLiteralImpl X kind (if kind = HexString then hexValue else v) sub")
  case (Inl e)
  then have "instanceofEvalError e \<Longrightarrow> expr e = None"
    by (auto dest: evalLiteralImpl_error)
  with Inl show ?thesis
    by (auto simp: evalLiteral_def catch_set_def catch_set_if_undefined_def)
next
  case (Inr r)
  then show ?thesis
    by (simp add: evalLiteral_def catch_set_def catch_set_if_undefined_def)
qed

section \<open>Properties\<close>

subsection \<open>The entry test of evalConstantExpr\<close>

text \<open>
  Claim C1. For every expression, of whatever shape: when \<^verbatim>\<open>isConstant\<close> is false,
  \<^verbatim>\<open>evalConstantExpr\<close> throws a \<^verbatim>\<open>NonConstantExpressionError\<close>, which is an
  \<^verbatim>\<open>EvalError\<close> and refers to the expression. The test comes before the dispatch on the
  shape, so no shape escapes it.
\<close>

theorem C1_not_constant_throws:
  "\<not> isConstant node \<Longrightarrow>
     evalConstantExpr X node = Inl (NonConstantExpressionError (Some node)) \<and>
     instanceofEvalError (NonConstantExpressionError (Some node)) \<and>
     expr (NonConstantExpressionError (Some node)) = Some node"
  by (subst evalConstantExpr.simps) simp

theorem C1_not_constant_throws_witness:
  "\<not> isConstant (BinaryOperation ''+'' (Literal Number ''1'' [] None) (Identifier None)) \<and>
   evalConstantExpr example_externals
     (BinaryOperation ''+'' (Literal Number ''1'' [] None) (Identifier None)) =
   Inl (NonConstantExpressionError
         (Some (BinaryOperation ''+'' (Literal Number ''1'' [] None) (Identifier None))))"
  using C1_not_constant_throws
    [of "BinaryOperation ''+'' (Literal Number ''1'' [] None) (Identifier None)" example_externals]
  by simp

subsection \<open>Division and modulo by zero\<close>

text \<open>
  Claim C2 says that \<^verbatim>\<open>/\<close> and \<^verbatim>\<open>%\<close> fail with an \<^verbatim>\<open>EvalError\<close> when the right operand is
  zero. The arithmetic group has no test for a zero divisor: \<open>1 / 0\<close> is the decimal
  \<^verbatim>\<open>Infinity\<close> and \<open>1 % 0\<close> is the decimal \<^verbatim>\<open>NaN\<close>, and \<^verbatim>\<open>demoteFromDec\<close> returns them as
  they are.
\<close>

theorem C2_counterexample:
  "evalBinaryImpl example_externals ''/'' (VBigint 1) (VBigint 0) = Inr (VDecimal (Infinity False)) \<and>
   evalBinaryImpl example_externals ''%'' (VBigint 1) (VBigint 0) = Inr (VDecimal NaN) \<and>
   evalConstantExpr example_externals
     (BinaryOperation ''/'' (Literal Number ''1'' [] None) (Literal Number ''0'' [] None)) =
     Inr (VDecimal (Infinity False))"
  by code_simp

text \<open>
  Claim C2, amended. For numeric operands with a zero right operand, \<^verbatim>\<open>/\<close> and \<^verbatim>\<open>%\<close> do
  not fail: \<^verbatim>\<open>/\<close> returns a decimal that is \<^verbatim>\<open>NaN\<close> or a signed infinity, and \<^verbatim>\<open>%\<close>
  returns the decimal \<^verbatim>\<open>NaN\<close>.
\<close>

theorem C2_division_by_zero_is_not_finite:
  assumes "promoteToDec l = Inr a" and "promoteToDec r = Inr (Finite s 0 e)"
  shows "evalBinaryImpl X ''/'' l r \<in>
           {Inr (VDecimal NaN), Inr (VDecimal (Infinity True)), Inr (VDecimal (Infinity False))} \<and>
         evalBinaryImpl X ''%'' l r = Inr (VDecimal NaN)"
  using assms
  by (cases a)
    (auto simp: evalBinaryImpl_def BINARY_OPERATOR_GROUPS_def arithmeticRes_def demoteFromDec_def)

theorem C2_division_by_zero_is_not_finite_witness:
  "promoteToDec (VBigint 1) = Inr (Finite False 1 0) \<and>
   promoteToDec (VBigint 0) = Inr (Finite False 0 0) \<and>
   evalBinaryImpl example_externals ''/'' (VBigint 1) (VBigint 0) \<in>
     {Inr (VDecimal NaN), Inr (VDecimal (Infinity True)), Inr (VDecimal (Infinity False))} \<and>
   evalBinaryImpl example_externals ''%'' (VBigint 1) (VBigint 0) = Inr (VDecimal NaN)"
proof -
  have l: "promoteToDec (VBigint 1) = Inr (Finite False 1 0)"
    and r: "promoteToDec (VBigint 0) = Inr (Finite False 0 0)"
    by (simp_all add: Decimal_of_bigint_def)
  show ?thesis
    using C2_division_by_zero_is_not_finite [OF l r, of example_externals] l r by simp
qed

subsection \<open>Shifts by a negative amount\<close>

text \<open>
  Claim C3 says that \<^verbatim>\<open><<\<close> and \<^verbatim>\<open>>>\<close> fail with an \<^verbatim>\<open>EvalError\<close> when the right operand is
  negative. The bitwise group has no test of the sign: it applies the BigInt operator,
  which shifts the other way, so \<^verbatim>\<open>1 << -1\<close> is 0 and \<^verbatim>\<open>1 >> -3\<close> is 8.
\<close>

theorem C3_counterexample:
  "evalBinaryImpl example_externals ''<<'' (VBigint 1) (VBigint (- 1)) = Inr (VBigint 0) \<and>
   evalBinaryImpl example_externals ''>>'' (VBigint 1) (VBigint (- 3)) = Inr (VBigint 8) \<and>
   evalConstantExpr example_externals
     (BinaryOperation ''<<'' (Literal Number ''1'' [] None)
        (UnaryOperation ''-'' (Literal Number ''1'' [] None))) = Inr (VBigint 0)"
proof -
  have shifts:
    "evalBinaryImpl example_externals ''<<'' (VBigint 1) (VBigint (- 1)) = Inr (VBigint 0)"
    "evalBinaryImpl example_externals ''>>'' (VBigint 1) (VBigint (- 3)) = Inr (VBigint 8)"
    by (simp_all add: evalBinaryImpl_def BINARY_OPERATOR_GROUPS_def BigInt_leftShift_def
        BigInt_signedRightShift_def drop_bit_eq_div push_bit_eq_mult)
  have one: "evalConstantExpr example_externals (Literal Number ''1'' [] None) = Inr (VBigint 1)"
    by code_simp
  have minus_one: "evalConstantExpr example_externals
      (UnaryOperation ''-'' (Literal Number ''1'' [] None)) = Inr (VBigint (- 1))"
    by (simp add: evalConstantExpr_Unary evalUnary.simps one evalUnaryImpl_def
        catch_set_if_undefined_def)
  have "evalConstantExpr example_externals
     (BinaryOperation ''<<'' (Literal Number ''1'' [] None)
        (UnaryOperation ''-'' (Literal Number ''1'' [] None))) = Inr (VBigint 0)"
    by (simp add: evalConstantExpr_Binary evalBinary.simps one minus_one shifts
        catch_set_if_undefined_def)
  with shifts show ?thesis by simp
qed

text \<open>
  Claim C3, amended. For integer operands with a negative right operand \<open>r\<close>, the shifts
  do not fail: \<^verbatim>\<open>l << r\<close> is \<open>l\<close> shifted right by \<open>-r\<close> (the floor of \<open>l / 2^(-r)\<close>), and
  \<^verbatim>\<open>l >> r\<close> is \<open>l\<close> shifted left by \<open>-r\<close> (\<open>l * 2^(-r)\<close>).
\<close>

theorem C3_negative_shift_reverses:
  assumes "r < 0"
  shows "evalBinaryImpl X ''<<'' (VBigint l) (VBigint r) = Inr (VBigint (l div 2 ^ nat (- r))) \<and>
         evalBinaryImpl X ''>>'' (VBigint l) (VBigint r) = Inr (VBigint (l * 2 ^ nat (- r)))"
  using assms
  by (simp add: evalBinaryImpl_def BINARY_OPERATOR_GROUPS_def BigInt_leftShift_def
      BigInt_signedRightShift_def drop_bit_eq_div push_bit_eq_mult)

theorem C3_negative_shift_reverses_witness:
  "(- 1 :: int) < 0 \<and>
   evalBinaryImpl example_externals ''<<'' (VBigint (- 5)) (VBigint (- 1)) = Inr (VBigint (- 3)) \<and>
   evalBinaryImpl example_externals ''>>'' (VBigint (- 5)) (VBigint (- 1)) = Inr (VBigint (- 10))"
  using C3_negative_shift_reverses [of "- 1" example_externals "- 5"] by simp

subsection \<open>promoteToDec on a boolean or a string\<close>

text \<open>
  Claim C4 says that \<^verbatim>\<open>promoteToDec\<close> fails with an \<^verbatim>\<open>EvalError\<close> on a boolean or a
  string. The function throws a plain \<^verbatim>\<open>Error\<close> instead, which is not an
  \<^verbatim>\<open>EvalError\<close>; the \<^verbatim>\<open>catch\<close> of \<^verbatim>\<open>evalBinary\<close> therefore attaches no expression to
  it, and the comparison \<^verbatim>\<open>true < 1\<close> leaves \<^verbatim>\<open>evalConstantExpr\<close> as that plain
  \<^verbatim>\<open>Error\<close>.
\<close>

theorem C4_promoteToDec_throws_plain_Error:
  "promoteToDec (VBoolean True) = Inl (Error ''Expected number not'') \<and>
   promoteToDec (VString ''abc'') = Inl (Error ''Expected number not'') \<and>
   \<not> instanceofEvalError (Error ''Expected number not'') \<and>
   evalConstantExpr example_externals
     (BinaryOperation ''<'' (Literal Bool ''true'' [] None) (Literal Number ''1'' [] None)) =
   Inl (Error ''Expected number not'')"
  by code_simp

subsection \<open>The round trip through promoteToDec and demoteFromDec\<close>

text \<open>
  Claim C5 says that \<^verbatim>\<open>demoteFromDec(promoteToDec(x))\<close> equals \<open>x\<close> for every integer or
  decimal \<open>x\<close>, also for a decimal without fractional part. For the decimal 5 the
  round trip returns the integer 5, which is another value.
\<close>

theorem C5_counterexample:
  "demote_promote (VDecimal (Finite False 5 0)) = Inr (VBigint 5) \<and>
   demote_promote (VDecimal (Finite False 5 0)) \<noteq> Inr (VDecimal (Finite False 5 0))"
  by (simp add: demote_promote_def demoteFromDec_def signed_def)

text \<open>
  Claim C5, amended. \<^verbatim>\<open>demoteFromDec(promoteToDec(x))\<close> equals \<open>x\<close> for every integer
  \<open>x\<close> and for every decimal \<open>x\<close> that is not a finite integer; for a decimal \<open>x\<close>
  without fractional part it is the integer of the same numeric value.
\<close>

theorem C5_round_trip:
  "demote_promote (VBigint n) = Inr (VBigint n) \<and>
   (if Decimal_isInt d
    then \<exists>k. demote_promote (VDecimal d) = Inr (VBigint k) \<and> Decimal_equals (Decimal_of_bigint k) d
    else demote_promote (VDecimal d) = Inr (VDecimal d))"
  using demoteFromDec_int [of d] demoteFromDec_not_int [of d] demote_promote_bigint [of n]
  by (simp add: demote_promote_def)

theorem C5_round_trip_witness:
  "demote_promote (VBigint 7) = Inr (VBigint 7) \<and>
   \<not> Decimal_isInt (Finite False 15 (- 1)) \<and>
   demote_promote (VDecimal (Finite False 15 (- 1))) = Inr (VDecimal (Finite False 15 (- 1)))"
  using C5_round_trip [of 7 "Finite False 15 (- 1)"] by simp

subsection \<open>Demotion after arithmetic\<close>

text \<open>
  Claim C6. For an operator of the arithmetic group and numeric operands,
  \<^verbatim>\<open>evalBinaryImpl\<close> does not fail, and its result is decided by the decimal \<open>res\<close> that
  the operation computes: when \<open>res\<close> is integral the result is the integer of the same
  numeric value, otherwise it is the decimal \<open>res\<close> itself, so a decimal that is
  returned is never integral. \<open>2 + 3\<close> is the integer 5, and \<open>1 / 3\<close> is the decimal
  \<open>0.333...\<close> with 100 digits, which is not integral.
\<close>

theorem C6_arithmetic_result_demoted:
  assumes "operator \<in> set (Arithmetic BINARY_OPERATOR_GROUPS)"
    and "promoteToDec l = Inr a" and "promoteToDec r = Inr b"
  shows "(\<exists>res. arithmeticRes X operator a b = Inr res \<and>
            (if Decimal_isInt res
             then \<exists>n. evalBinaryImpl X operator l r = Inr (VBigint n) \<and>
                      Decimal_equals (Decimal_of_bigint n) res
             else evalBinaryImpl X operator l r = Inr (VDecimal res))) \<and>
         evalBinaryImpl X ''+'' (VBigint 2) (VBigint 3) = Inr (VBigint 5) \<and>
         evalBinaryImpl X ''/'' (VBigint 1) (VBigint 3) =
           Inr (VDecimal (Finite False 3333333333333333333333333333333333333333333333333333333333333333333333333333333333333333333333333333 (- 100))) \<and>
         \<not> Decimal_isInt (Finite False 3333333333333333333333333333333333333333333333333333333333333333333333333333333333333333333333333333 (- 100))"
proof -
  from assms(1) have grp: "operator \<notin> set (Logical BINARY_OPERATOR_GROUPS)"
      "operator \<notin> set (Equality BINARY_OPERATOR_GROUPS)"
      "operator \<notin> set (Comparison BINARY_OPERATOR_GROUPS)"
    by (auto simp: BINARY_OPERATOR_GROUPS_def)
  from assms(1) obtain res where res: "arithmeticRes X operator a b = Inr res"
    by (auto simp: BINARY_OPERATOR_GROUPS_def arithmeticRes_def)
  have eb: "evalBinaryImpl X operator l r = demoteFromDec res"
    by (simp add: evalBinaryImpl_def grp assms res)
  have general: "\<exists>res. arithmeticRes X operator a b = Inr res \<and>
            (if Decimal_isInt res
             then \<exists>n. evalBinaryImpl X operator l r = Inr (VBigint n) \<and>
                      Decimal_equals (Decimal_of_bigint n) res
             else evalBinaryImpl X operator l r = Inr (VDecimal res))"
    using res eb demoteFromDec_int [of res] demoteFromDec_not_int [of res] by auto
  have five: "evalBinaryImpl X ''+'' (VBigint 2) (VBigint 3) = Inr (VBigint 5)"
    by (simp add: evalBinaryImpl_def BINARY_OPERATOR_GROUPS_def arithmeticRes_def
        Decimal_of_bigint_def aligned_def signed_def finalise_def precision_def ndigits_small
        demoteFromDec_def)
  have notint: "\<not> Decimal_isInt (Finite False 3333333333333333333333333333333333333333333333333333333333333333333333333333333333333333333333333333 (- 100))"
    by simp
  have "evalBinaryImpl X ''/'' (VBigint 1) (VBigint 3) =
      demoteFromDec (Decimal_div (Finite False 1 0) (Finite False 3 0))"
    by (simp add: evalBinaryImpl_def BINARY_OPERATOR_GROUPS_def arithmeticRes_def
        Decimal_of_bigint_def del: Decimal_div.simps)
  then have thrd: "evalBinaryImpl X ''/'' (VBigint 1) (VBigint 3) =
           Inr (VDecimal (Finite False 3333333333333333333333333333333333333333333333333333333333333333333333333333333333333333333333333333 (- 100)))"
    by (simp only: Decimal_div_1_3 demoteFromDec_not_int [OF notint])
  from general five thrd notint show ?thesis by blast
qed

theorem C6_arithmetic_result_demoted_witness:
  "''*'' \<in> set (Arithmetic BINARY_OPERATOR_GROUPS) \<and>
   promoteToDec (VDecimal (Finite False 15 (- 1))) = Inr (Finite False 15 (- 1)) \<and>
   promoteToDec (VBigint 2) = Inr (Finite False 2 0) \<and>
   arithmeticRes example_externals ''*'' (Finite False 15 (- 1)) (Finite False 2 0) =
     Inr (Finite False 30 (- 1)) \<and>
   Decimal_isInt (Finite False 30 (- 1)) \<and>
   evalBinaryImpl example_externals ''*'' (VDecimal (Finite False 15 (- 1))) (VBigint 2) =
     Inr (VBigint 3) \<and>
   evalBinaryImpl example_externals ''/'' (VBigint 1) (VBigint 3) =
     Inr (VDecimal (Finite False 3333333333333333333333333333333333333333333333333333333333333333333333333333333333333333333333333333 (- 100)))"
proof -
  have g: "''*'' \<in> set (Arithmetic BINARY_OPERATOR_GROUPS)"
    by (simp add: BINARY_OPERATOR_GROUPS_def)
  have l: "promoteToDec (VDecimal (Finite False 15 (- 1))) = Inr (Finite False 15 (- 1))"
    and r: "promoteToDec (VBigint 2) = Inr (Finite False 2 0)"
    by (simp_all add: Decimal_of_bigint_def)
  have res: "arithmeticRes example_externals ''*'' (Finite False 15 (- 1)) (Finite False 2 0) =
     Inr (Finite False 30 (- 1))"
    by (simp add: arithmeticRes_def finalise_def precision_def ndigits_eq [of 2 30])
  have v: "evalBinaryImpl example_externals ''*'' (VDecimal (Finite False 15 (- 1))) (VBigint 2) =
     Inr (VBigint 3)"
    by (simp add: evalBinaryImpl_def BINARY_OPERATOR_GROUPS_def res Decimal_of_bigint_def
        demoteFromDec_def signed_def del: Decimal_times.simps)
  show ?thesis
    using C6_arithmetic_result_demoted [OF g l r, of example_externals] g l r res v by simp
qed

subsection \<open>Conditionals\<close>

text \<open>
  Claim C7. For a constant conditional whose condition evaluates to a value, the result
  of \<^verbatim>\<open>evalConstantExpr\<close> is the result of the selected branch alone: it does not depend
  on what the evaluation of the other branch would give. With the condition \<^verbatim>\<open>true\<close> and
  the true branch \<open>1\<close> the result is the integer 1 although the false branch \<^verbatim>\<open>!1\<close> fails
  when evaluated on its own; the same holds with the false branch \<^verbatim>\<open>1 / 0\<close>.
\<close>

theorem C7_conditional_selected_branch_only:
  assumes "isConstant c" and "isConstant t" and "isConstant f"
    and "evalConstantExpr X c = Inr v"
  shows "evalConstantExpr X (Conditional c t f) =
           (if truthy v then evalConstantExpr X t else evalConstantExpr X f)"
  by (subst evalConstantExpr.simps) (simp add: assms)

theorem C7_conditional_selected_branch_only_witness:
  "isConstant (Literal Bool ''true'' [] None) \<and>
   isConstant (Literal Number ''1'' [] None) \<and>
   isConstant (UnaryOperation ''!'' (Literal Number ''1'' [] None)) \<and>
   evalConstantExpr example_externals (Literal Bool ''true'' [] None) = Inr (VBoolean True) \<and>
   evalConstantExpr example_externals (UnaryOperation ''!'' (Literal Number ''1'' [] None)) =
     Inl (EvalError ''Expected to be boolean''
            (Some (UnaryOperation ''!'' (Literal Number ''1'' [] None)))) \<and>
   evalConstantExpr example_externals
     (Conditional (Literal Bool ''true'' [] None) (Literal Number ''1'' [] None)
        (UnaryOperation ''!'' (Literal Number ''1'' [] None))) = Inr (VBigint 1) \<and>
   evalConstantExpr example_externals
     (Conditional (Literal Bool ''true'' [] None) (Literal Number ''1'' [] None)
        (BinaryOperation ''/'' (Literal Number ''1'' [] None) (Literal Number ''0'' [] None))) =
     Inr (VBigint 1)"
proof -
  have c: "evalConstantExpr example_externals (Literal Bool ''true'' [] None) = Inr (VBoolean True)"
    by code_simp
  have t: "evalConstantExpr example_externals (Literal Number ''1'' [] None) = Inr (VBigint 1)"
    by code_simp
  have f: "evalConstantExpr example_externals (UnaryOperation ''!'' (Literal Number ''1'' [] None)) =
     Inl (EvalError ''Expected to be boolean''
            (Some (UnaryOperation ''!'' (Literal Number ''1'' [] None))))"
    by code_simp
  show ?thesis
    using C7_conditional_selected_branch_only
      [OF _ _ _ c, of "Literal Number ''1'' [] None"
         "UnaryOperation ''!'' (Literal Number ''1'' [] None)"]
      C7_conditional_selected_branch_only
      [OF _ _ _ c, of "Literal Number ''1'' [] None"
         "BinaryOperation ''/'' (Literal Number ''1'' [] None) (Literal Number ''0'' [] None)"]
      c t f
    by simp
qed

subsection \<open>The expression attached to an error\<close>

text \<open>
  Claim C8. Let the evaluation of \<open>node\<close> end with an \<^verbatim>\<open>EvalError\<close>. The error refers to
  an expression \<open>n\<close> enclosed by \<open>node\<close>. When \<open>node\<close> is constant, \<open>n\<close> is the innermost
  place of the failure: all operands of \<open>n\<close> evaluate to values and the operation of \<open>n\<close>
  itself throws the error, without expression; the frame of \<open>n\<close> attaches \<open>n\<close>. When
  \<open>node\<close> is not constant, the error is the \<^verbatim>\<open>NonConstantExpressionError\<close> of \<open>node\<close>.
  No enclosing frame changes the error afterwards: a handler that tests for a missing
  expression leaves it as it is, and the handler of \<^verbatim>\<open>evalLiteral\<close> acts as one of those.
\<close>

theorem C8_error_refers_to_innermost_expression:
  assumes "evalConstantExpr X node = Inl err" and "instanceofEvalError err"
  shows "(\<exists>n. expr err = Some n \<and> encloses node n \<and>
            (if isConstant node
             then \<exists>m. err = EvalError m (Some n) \<and> raised_at X n = Some (EvalError m None)
             else n = node \<and> err = NonConstantExpressionError (Some node))) \<and>
         (\<forall>outer. catch_set_if_undefined outer (Inl err) = Inl err) \<and>
         evalLiteral X kind v hexValue sub =
           catch_set_if_undefined (Literal kind v hexValue sub)
             (evalLiteralImpl X kind (if kind = HexString then hexValue else v) sub)"
proof -
  have origin: "\<exists>n. expr err = Some n \<and> encloses node n \<and>
            (if isConstant node
             then \<exists>m. err = EvalError m (Some n) \<and> raised_at X n = Some (EvalError m None)
             else n = node \<and> err = NonConstantExpressionError (Some node))"
  proof (cases "isConstant node")
    case True
    from constant_error_origin [OF True assms] obtain n m where
      "err = EvalError m (Some n)" "encloses node n" "raised_at X n = Some (EvalError m None)"
      by blast
    with True show ?thesis by auto
  next
    case False
    with assms(1) have "err = NonConstantExpressionError (Some node)"
      by (subst (asm) evalConstantExpr.simps) simp
    with False show ?thesis by (auto intro: encloses_self)
  qed
  then have "\<forall>outer. catch_set_if_undefined outer (Inl err) = Inl err"
    by (auto simp: catch_set_if_undefined_def)
  with origin evalLiteral_sets_unset_only show ?thesis by blast
qed

theorem C8_error_refers_to_innermost_expression_witness:
  "evalConstantExpr example_externals
     (BinaryOperation ''+'' (Literal Number ''1'' [] None)
        (UnaryOperation ''!'' (Literal Number ''1'' [] None))) =
     Inl (EvalError ''Expected to be boolean''
            (Some (UnaryOperation ''!'' (Literal Number ''1'' [] None)))) \<and>
   instanceofEvalError
     (EvalError ''Expected to be boolean''
        (Some (UnaryOperation ''!'' (Literal Number ''1'' [] None)))) \<and>
   encloses
     (BinaryOperation ''+'' (Literal Number ''1'' [] None)
        (UnaryOperation ''!'' (Literal Number ''1'' [] None)))
     (UnaryOperation ''!'' (Literal Number ''1'' [] None)) \<and>
   raised_at example_externals (UnaryOperation ''!'' (Literal Number ''1'' [] None)) =
     Some (EvalError ''Expected to be boolean'' None)"
proof -
  have ev: "evalConstantExpr example_externals
     (BinaryOperation ''+'' (Literal Number ''1'' [] None)
        (UnaryOperation ''!'' (Literal Number ''1'' [] None))) =
     Inl (EvalError ''Expected to be boolean''
            (Some (UnaryOperation ''!'' (Literal Number ''1'' [] None))))"
    by code_simp
  have inst: "instanceofEvalError
     (EvalError ''Expected to be boolean''
        (Some (UnaryOperation ''!'' (Literal Number ''1'' [] None))))"
    by simp
  have c: "isConstant (BinaryOperation ''+'' (Literal Number ''1'' [] None)
        (UnaryOperation ''!'' (Literal Number ''1'' [] None)))"
    by simp
  show ?thesis
    using C8_error_refers_to_innermost_expression [OF ev inst] ev c by simp
qed

subsection \<open>Number literals with a unit\<close>

text \<open>
  Claim C9. Take a literal of kind \<open>Number\<close> whose text evaluates, without unit, to the
  value \<open>base\<close> (an integer or a decimal), and a unit \<open>u\<close>. With the unit, the literal
  evaluator looks the unit up: an unknown unit is an \<^verbatim>\<open>EvalError\<close>; for an integer
  \<open>base\<close> the result is its integer product with the multiplier converted to an integer;
  for a decimal \<open>base\<close> it is the demoted decimal product. With 60 as the multiplier of
  \<open>minutes\<close>, the literal \<open>1 minutes\<close> is the integer 60.
\<close>

theorem C9_unit_multiplier:
  assumes "evalLiteralImpl X Number v None = Inr base" and "u \<noteq> []"
  shows "((\<exists>n. base = VBigint n) \<or> (\<exists>d. base = VDecimal d)) \<and>
         evalLiteralImpl X Number v (Some u) =
           (case SUBDENOMINATION_MULTIPLIERS X u of
              None \<Rightarrow> Inl (EvalError ''Unknown denomination'' None)
            | Some multiplier \<Rightarrow>
                (case base of
                   VBigint n \<Rightarrow>
                     (case BigInt_toFixed multiplier of
                        Inl err \<Rightarrow> Inl err
                      | Inr k \<Rightarrow> Inr (VBigint (n * k)))
                 | VDecimal d \<Rightarrow> demoteFromDec (Decimal_times d multiplier)
                 | _ \<Rightarrow> Inl (TypeError ''Cannot mix BigInt and other types''))) \<and>
         (SUBDENOMINATION_MULTIPLIERS X ''minutes'' = Some (Finite False 60 0) \<longrightarrow>
            evalLiteralImpl X Number ''1'' (Some ''minutes'') = Inr (VBigint 60))"
proof -
  have one: "Decimal_of_string X ''1'' = Inr (Finite False 1 0)"
    by (simp add: Decimal_of_string_def parseDecimal_def isExpMark_def isDigit_def digitsValue_def)
  have ex: "SUBDENOMINATION_MULTIPLIERS X ''minutes'' = Some (Finite False 60 0) \<longrightarrow>
            evalLiteralImpl X Number ''1'' (Some ''minutes'') = Inr (VBigint 60)"
    by (simp add: evalLiteralImpl_def one hasSubdenomination_def signed_def)
  from assms have "((\<exists>n. base = VBigint n) \<or> (\<exists>d. base = VDecimal d)) \<and>
         evalLiteralImpl X Number v (Some u) =
           (case SUBDENOMINATION_MULTIPLIERS X u of
              None \<Rightarrow> Inl (EvalError ''Unknown denomination'' None)
            | Some multiplier \<Rightarrow>
                (case base of
                   VBigint n \<Rightarrow>
                     (case BigInt_toFixed multiplier of
                        Inl err \<Rightarrow> Inl err
                      | Inr k \<Rightarrow> Inr (VBigint (n * k)))
                 | VDecimal d \<Rightarrow> demoteFromDec (Decimal_times d multiplier)
                 | _ \<Rightarrow> Inl (TypeError ''Cannot mix BigInt and other types'')))"
    by (auto simp: evalLiteralImpl_def hasSubdenomination_def
        split: sum.splits if_splits option.splits)
  with ex show ?thesis by blast
qed

theorem C9_unit_multiplier_witness:
  "evalLiteralImpl example_externals Number ''1'' None = Inr (VBigint 1) \<and>
   ''minutes'' \<noteq> [] \<and>
   SUBDENOMINATION_MULTIPLIERS example_externals ''minutes'' = Some (Finite False 60 0) \<and>
   evalLiteralImpl example_externals Number ''1'' (Some ''minutes'') = Inr (VBigint 60) \<and>
   evalLiteralImpl example_externals Number ''1'' (Some ''lustrum'') =
     Inl (EvalError ''Unknown denomination'' None)"
proof -
  have b: "evalLiteralImpl example_externals Number ''1'' None = Inr (VBigint 1)"
    by code_simp
  have m: "SUBDENOMINATION_MULTIPLIERS example_externals ''minutes'' = Some (Finite False 60 0)"
    and n: "SUBDENOMINATION_MULTIPLIERS example_externals ''lustrum'' = None"
    by (simp_all add: example_externals_def)
  show ?thesis
    using C9_unit_multiplier [OF b, of "''minutes''"] C9_unit_multiplier [OF b, of "''lustrum''"]
      b m n
    by simp
qed

subsection \<open>Boolean literals\<close>

text \<open>
  Claim C10. On a literal of kind \<open>Bool\<close> the literal evaluator never fails, whatever the
  raw text and the unit: the result is the boolean that tells whether the raw text is
  \<^verbatim>\<open>"true"\<close>, so any other text gives \<^verbatim>\<open>false\<close>. This holds for \<^verbatim>\<open>evalLiteralImpl\<close> and for
  \<^verbatim>\<open>evalLiteral\<close> on the node.
\<close>

theorem C10_bool_literal_never_fails:
  "evalLiteralImpl X Bool v subdenomination = Inr (VBoolean (v = ''true'')) \<and>
   evalLiteral X Bool v hexValue subdenomination = Inr (VBoolean (v = ''true''))"
  by (simp add: evalLiteralImpl_def evalLiteral_def catch_set_def)

theorem C10_bool_literal_never_fails_witness:
  "evalLiteralImpl example_externals Bool ''true'' None = Inr (VBoolean True) \<and>
   evalLiteralImpl example_externals Bool ''false'' None = Inr (VBoolean False) \<and>
   evalLiteralImpl example_externals Bool ''maybe'' (Some ''minutes'') = Inr (VBoolean False)"
  using C10_bool_literal_never_fails [of example_externals "''true''" None]
    C10_bool_literal_never_fails [of example_externals "''false''" None]
    C10_bool_literal_never_fails [of example_externals "''maybe''" "Some ''minutes''"]
  by simp

end
